theory Spec2Isabelle
  imports Main "HOL-Library.Word"
begin

section \<open>The umlaut\_kb driver (src/umlaut\_kb.c)\<close>

text \<open>
  The driver is embedded function by function. Every call the driver makes into the
  USB core, the input core, the power-management framework, the allocator or the
  kernel log is recorded, in program order, in a list of \<open>call\<close>s; what such a call
  returns to the driver is a parameter of the embedded function. The driver's own
  storage, \<open>struct umlaut_kb_data\<close>, is a record that is passed in and returned.
\<close>

subsection \<open>Constants of the kernel headers and of the driver\<close>

text \<open>Error numbers of \<open>linux/errno.h\<close> (the asm-generic values).\<close>

definition ENOENT :: int where "ENOENT = 2"
definition ENOMEM :: int where "ENOMEM = 12"
definition ENODEV :: int where "ENODEV = 19"
definition EOVERFLOW :: int where "EOVERFLOW = 75"
definition ECONNRESET :: int where "ECONNRESET = 104"
definition ESHUTDOWN :: int where "ESHUTDOWN = 108"

text \<open>Event type and key codes of \<open>linux/input-event-codes.h\<close>.\<close>

definition KEY_Q :: nat where "KEY_Q = 16"
definition KEY_Y :: nat where "KEY_Y = 21"
definition KEY_P :: nat where "KEY_P = 25"
definition KEY_S :: nat where "KEY_S = 31"
definition KEY_RIGHTALT :: nat where "KEY_RIGHTALT = 100"

definition EV_KEY :: nat where "EV_KEY = 1"

definition EP_BUF_SIZE :: nat where "EP_BUF_SIZE = 8"

definition SCAN_BASE :: nat where "SCAN_BASE = 0x1E"

text \<open>\<open>static const u8 keycodes[]\<close>: a umlaut, o umlaut, u umlaut, eszett.\<close>

definition keycodes :: "8 word list" where
  "keycodes = [of_nat KEY_Q, of_nat KEY_P, of_nat KEY_Y, of_nat KEY_S]"

text \<open>\<open>ARRAY_SIZE(keycodes)\<close>.\<close>

definition ARRAY_SIZE_keycodes :: nat where
  "ARRAY_SIZE_keycodes = length keycodes"

subsection \<open>Data\<close>

text \<open>
  \<open>struct input_dev\<close>, as far as the driver touches it: the number of open consumers,
  which the input core maintains and the driver reads, and the two capability bitmaps, in
  which the driver sets bits.
\<close>

record input_dev =
  users :: nat
  evbit :: "nat set"
  keybit :: "nat set"

text \<open>
  \<open>struct umlaut_kb_data\<close>. The pointers \<open>input\<close> and \<open>bulk_in_urb\<close> can be NULL
  (\<open>None\<close>); \<open>bulk_in_urb\<close> is a handle of the USB core. \<open>kref\<close> is the counter of
  \<open>struct kref\<close>. The fields \<open>udev\<close> and \<open>interface\<close> are set once in probe, are never
  NULL and are only handed back to the USB core; \<open>phys\<close> is only handed to the input core;
  the two locks appear as calls. These fields carry no value here.
\<close>

record umlaut_kb_data =
  input :: "input_dev option"
  bulk_in_urb :: "nat option"
  bulk_in_buffer :: "8 word list"
  kref :: int

text \<open>\<open>struct urb\<close>, as far as the completion handler reads it.\<close>

record urb =
  status :: int
  "context" :: umlaut_kb_data

text \<open>
  The calls out of the driver. \<open>Input_report_key code value\<close> and \<open>Input_sync\<close> go to the
  input device of the session; the log calls carry their format string (without the
  final newline) and their integer argument. \<open>Usb_set_intfdata\<close> stores the session
  pointer in the interface, \<open>Usb_set_intfdata_NULL\<close> stores NULL there.
\<close>

datatype call =
    Input_report_key nat int
  | Input_sync
  | Usb_submit_urb
  | Usb_kill_urb
  | Usb_autopm_get_interface
  | Usb_autopm_put_interface
  | Usb_free_urb "nat option"
  | Usb_put_dev
  | Input_unregister_device
  | Input_free_device "input_dev option"
  | Kzalloc
  | Kfree
  | Spin_lock_init
  | Mutex_init
  | Spin_lock_irqsave
  | Spin_unlock_irqrestore
  | Usb_get_dev
  | Usb_alloc_urb
  | Usb_fill_int_urb
  | Input_allocate_device
  | Input_set_drvdata
  | Usb_make_path
  | Strlcat
  | Usb_set_intfdata
  | Input_register_device
  | Dev_err string "int option"
  | Dev_dbg string int
  | Dev_info string
  | Mutex_lock
  | Mutex_unlock
  | Usb_set_intfdata_NULL

text \<open>The part of a trace that reaches the input device: key events and syncs.\<close>

fun is_input_event :: "call \<Rightarrow> bool" where
  "is_input_event (Input_report_key c v) = True"
| "is_input_event Input_sync = True"
| "is_input_event _ = False"

definition input_events :: "call list \<Rightarrow> call list" where
  "input_events tr = filter is_input_event tr"

subsection \<open>The completion handler\<close>

text \<open>
  \<open>umlaut_kb_ep_irq\<close> (lines 126 to 175). \<open>submit_ret\<close> is what \<open>usb_submit_urb\<close>
  returns at the label \<open>exit\<close>. The handler writes to no field of the session, so it
  returns the trace only. In the comparisons the byte is promoted to a wider integer,
  so they are made on \<open>unat\<close>.
\<close>

definition umlaut_kb_ep_irq :: "urb \<Rightarrow> int \<Rightarrow> call list" where
  "umlaut_kb_ep_irq u submit_ret =
     (let dev = context u;
          b = unat (bulk_in_buffer dev ! 2);
          exit = Usb_submit_urb #
                 (if submit_ret \<noteq> 0
                  then [Dev_err ''urb failed with code: %d'' (Some submit_ret)]
                  else []) @
                 [Spin_unlock_irqrestore]
      in
      if status u = 0 then
        Spin_lock_irqsave #
        (if SCAN_BASE \<le> b \<and> b < SCAN_BASE + ARRAY_SIZE_keycodes then
           [Input_report_key KEY_RIGHTALT 1,
            Input_report_key (unat (keycodes ! (b - SCAN_BASE))) 1,
            Input_sync]
         else if b = 0 then
           map (\<lambda>i. Input_report_key (unat (keycodes ! i)) 0) [0..<ARRAY_SIZE_keycodes] @
           [Input_report_key KEY_RIGHTALT 0,
            Input_sync]
         else []) @
        exit
      else if status u = - EOVERFLOW \<or> status u = - ECONNRESET \<or>
              status u = - ENOENT \<or> status u = - ESHUTDOWN then
        [Spin_lock_irqsave,
         Dev_dbg ''urb ignored status: %d'' (status u),
         Spin_unlock_irqrestore]
      else
        Spin_lock_irqsave # Dev_dbg ''urb submit status: %d'' (status u) # exit)"

subsection \<open>Reference counting and release\<close>

text \<open>
  \<open>umlaut_kb_delete\<close> (lines 65 to 76), the release function of the \<open>kref\<close>. After
  \<open>kfree\<close> the session storage no longer exists: the session returned is \<open>None\<close>.
\<close>

definition umlaut_kb_delete :: "umlaut_kb_data \<Rightarrow> umlaut_kb_data option \<times> call list" where
  "umlaut_kb_delete dev =
     (None,
      [Usb_free_urb (bulk_in_urb dev), Usb_put_dev] @
      (if input dev \<noteq> None then [Input_unregister_device] else []) @
      [Kfree])"

text \<open>
  \<open>kref_get\<close> and \<open>kref_put\<close> of \<open>linux/kref.h\<close>: the first increments the counter; the
  second decrements it and calls the release function if and only if the counter
  has become zero.
\<close>

definition kref_get :: "umlaut_kb_data \<Rightarrow> umlaut_kb_data" where
  "kref_get dev = dev\<lparr>kref := kref dev + 1\<rparr>"

definition kref_put ::
  "umlaut_kb_data \<Rightarrow> (umlaut_kb_data \<Rightarrow> umlaut_kb_data option \<times> call list) \<Rightarrow>
   umlaut_kb_data option \<times> call list" where
  "kref_put dev release =
     (let dev' = dev\<lparr>kref := kref dev - 1\<rparr>
      in if kref dev' = 0 then release dev' else (Some dev', []))"

subsection \<open>Open and close of the input device\<close>

text \<open>
  \<open>umlaut_kb_open\<close> (lines 78 to 108). \<open>drvdata\<close> is what \<open>input_get_drvdata\<close>
  returns, \<open>autopm_ret\<close> what \<open>usb_autopm_get_interface\<close> returns and \<open>submit_ret\<close>
  what \<open>usb_submit_urb\<close> returns. The result is the return value, the session
  afterwards and the trace.
\<close>

definition umlaut_kb_open ::
  "umlaut_kb_data option \<Rightarrow> int \<Rightarrow> int \<Rightarrow> int \<times> umlaut_kb_data option \<times> call list" where
  "umlaut_kb_open drvdata autopm_ret submit_ret =
     (case drvdata of
        None \<Rightarrow> (- ENODEV, None, [])
      | Some dev \<Rightarrow>
          if autopm_ret \<noteq> 0 then
            (autopm_ret, Some dev,
             [Usb_autopm_get_interface,
              Dev_err ''Could not get interface, error %d'' (Some autopm_ret)])
          else if submit_ret \<noteq> 0 then
            (submit_ret, Some dev,
             [Usb_autopm_get_interface,
              Usb_submit_urb,
              Dev_err ''Could not submit urb, error %d'' (Some submit_ret)])
          else
            (0, Some (kref_get dev),
             [Usb_autopm_get_interface,
              Usb_submit_urb]))"

text \<open>\<open>umlaut_kb_close\<close> (lines 110 to 124): the session afterwards and the trace.\<close>

definition umlaut_kb_close ::
  "umlaut_kb_data option \<Rightarrow> umlaut_kb_data option \<times> call list" where
  "umlaut_kb_close drvdata =
     (case drvdata of
        None \<Rightarrow> (None, [])
      | Some dev \<Rightarrow>
          let (dev', tr) = kref_put dev umlaut_kb_delete
          in (dev', [Usb_kill_urb, Usb_autopm_put_interface] @ tr))"

subsection \<open>Probe\<close>

text \<open>
  The label \<open>error\<close> of \<open>umlaut_kb_probe\<close> (lines 252 to 260), reached with the
  session \<open>dev\<close>, the return value \<open>retval\<close> and the trace so far.
\<close>

definition probe_error ::
  "umlaut_kb_data \<Rightarrow> int \<Rightarrow> call list \<Rightarrow> int \<times> umlaut_kb_data option \<times> call list" where
  "probe_error dev retval tr =
     (let (dev', tr') = kref_put (dev\<lparr>input := None\<rparr>) umlaut_kb_delete
      in (retval, dev', tr @ [Input_free_device (input dev)] @ tr'))"

text \<open>
  \<open>umlaut_kb_probe\<close> (lines 177 to 261). \<open>kzalloc_ok\<close> says whether \<open>kzalloc\<close>
  returned storage, \<open>urb_ret\<close> is what \<open>usb_alloc_urb\<close> returns, \<open>input_ret\<close> what
  \<open>input_allocate_device\<close> returns and \<open>register_ret\<close> what \<open>input_register_device\<close>
  returns. The result is the return value, the session afterwards and the trace. The
  name, the physical path and the bus id written into the input device are left out.
\<close>

definition umlaut_kb_probe ::
  "bool \<Rightarrow> nat option \<Rightarrow> input_dev option \<Rightarrow> int \<Rightarrow>
   int \<times> umlaut_kb_data option \<times> call list" where
  "umlaut_kb_probe kzalloc_ok urb_ret input_ret register_ret =
     (if \<not> kzalloc_ok then (- ENOMEM, None, [Kzalloc])
      else
        let dev1 = \<lparr>input = None, bulk_in_urb = urb_ret,
                    bulk_in_buffer = replicate EP_BUF_SIZE 0, kref = 1\<rparr>;
            tr1 = [Kzalloc, Spin_lock_init, Mutex_init, Usb_get_dev, Usb_alloc_urb]
        in
        (case urb_ret of
           None \<Rightarrow>
             probe_error dev1 (- ENOMEM)
               (tr1 @ [Dev_err ''Could not allocate bulk_in_urb'' None])
         | Some _ \<Rightarrow>
             (let tr2 = tr1 @ [Usb_fill_int_urb, Input_allocate_device]
              in
              (case input_ret of
                 None \<Rightarrow>
                   probe_error dev1 (- ENOMEM) (tr2 @ [Dev_err ''Out of memory'' None])
               | Some idev \<Rightarrow>
                   (let idev' = idev\<lparr>evbit := insert EV_KEY (evbit idev),
                                      keybit := set (map unat keycodes) \<union>
                                                insert KEY_RIGHTALT (keybit idev)\<rparr>;
                        dev2 = dev1\<lparr>input := Some idev'\<rparr>;
                        tr3 = tr2 @ [Input_set_drvdata, Usb_make_path, Strlcat,
                                     Usb_set_intfdata, Input_register_device]
                    in
                    if register_ret \<noteq> 0 then
                      probe_error dev2 register_ret
                        (tr3 @ [Dev_err ''Could not register the input device.'' None])
                    else
                      (0, Some dev2, tr3 @ [Dev_info ''Device attached.'']))))))"

subsection \<open>Suspend and resume\<close>

text \<open>
  Both read \<open>dev->input->users\<close>; with \<open>dev->input\<close> NULL that is a NULL pointer
  dereference, which is a result of its own.
\<close>

datatype fault = Null_pointer_dereference

text \<open>
  \<open>umlaut_kb_suspend\<close> (lines 282 to 293). \<open>intfdata\<close> is what \<open>usb_get_intfdata\<close>
  returns. The result is the return value and the trace.
\<close>

definition umlaut_kb_suspend :: "umlaut_kb_data option \<Rightarrow> fault + int \<times> call list" where
  "umlaut_kb_suspend intfdata =
     (case intfdata of
        None \<Rightarrow> Inr (- ENODEV, [])
      | Some dev \<Rightarrow>
          (case input dev of
             None \<Rightarrow> Inl Null_pointer_dereference
           | Some idev \<Rightarrow>
               if users idev \<noteq> 0 then Inr (0, [Usb_kill_urb]) else Inr (0, [])))"

text \<open>
  \<open>umlaut_kb_resume\<close> (lines 295 to 307). \<open>submit_ret\<close> is what \<open>usb_submit_urb\<close>
  returns.
\<close>

definition umlaut_kb_resume ::
  "umlaut_kb_data option \<Rightarrow> int \<Rightarrow> fault + int \<times> call list" where
  "umlaut_kb_resume intfdata submit_ret =
     (case intfdata of
        None \<Rightarrow> Inr (- ENODEV, [])
      | Some dev \<Rightarrow>
          (case input dev of
             None \<Rightarrow> Inl Null_pointer_dereference
           | Some idev \<Rightarrow>
               if users idev \<noteq> 0 then Inr (submit_ret, [Usb_submit_urb]) else Inr (0, [])))"

subsection \<open>Disconnect\<close>

text \<open>
  \<open>umlaut_kb_disconnect\<close> (lines 263 to 280). \<open>intfdata\<close> is what
  \<open>usb_get_intfdata\<close> returns; locking \<open>dev->mut\<close> with \<open>dev\<close> NULL is a NULL
  pointer dereference. The result is the session afterwards and the trace. The
  function writes to no field of the session: the reference count is neither read nor
  changed, and \<open>bulk_in_urb\<close> keeps the handle that has just been freed.
\<close>

definition umlaut_kb_disconnect ::
  "umlaut_kb_data option \<Rightarrow> fault + umlaut_kb_data option \<times> call list" where
  "umlaut_kb_disconnect intfdata =
     (case intfdata of
        None \<Rightarrow> Inl Null_pointer_dereference
      | Some dev \<Rightarrow>
          Inr (Some dev,
               [Mutex_lock,
                Usb_set_intfdata_NULL,
                Input_unregister_device,
                Usb_free_urb (bulk_in_urb dev),
                Mutex_unlock,
                Dev_info ''Device disconnected.'']))"

subsection \<open>Concrete inputs\<close>

text \<open>
  A session as probe leaves it, with \<open>n\<close> open consumers of its input device and the
  reference count \<open>k\<close>, and a completed urb of that session with status \<open>st\<close> and the
  scan code \<open>c\<close> in byte 2 of the report.
\<close>

definition session :: "int \<Rightarrow> nat \<Rightarrow> umlaut_kb_data" where
  "session k n =
     \<lparr>input = Some \<lparr>users = n, evbit = {EV_KEY},
                     keybit = {KEY_Q, KEY_P, KEY_Y, KEY_S, KEY_RIGHTALT}\<rparr>,
      bulk_in_urb = Some 0,
      bulk_in_buffer = replicate EP_BUF_SIZE 0,
      kref = k\<rparr>"

definition report_urb :: "int \<Rightarrow> 8 word \<Rightarrow> urb" where
  "report_urb st c =
     \<lparr>status = st,
      context = (session 2 1)\<lparr>bulk_in_buffer := [0, 0, c, 0, 0, 0, 0, 0]\<rparr>\<rparr>"

section \<open>Properties\<close>

subsection \<open>The scan-code table\<close>

lemma keycodes_not_rightalt: "i < 4 \<Longrightarrow> unat (keycodes ! i) \<noteq> KEY_RIGHTALT"
proof -
  assume "i < 4"
  then consider "i = 0" | "i = 1" | "i = 2" | "i = 3" by linarith
  then show ?thesis
    by cases (simp_all add: keycodes_def KEY_Q_def KEY_P_def KEY_Y_def KEY_S_def KEY_RIGHTALT_def)
qed

lemma keycodes_values:
  "map unat keycodes = [KEY_Q, KEY_P, KEY_Y, KEY_S]"
  by (simp add: keycodes_def KEY_Q_def KEY_P_def KEY_Y_def KEY_S_def)

subsection \<open>The completion handler, path by path\<close>

lemma ep_irq_in_range:
  assumes "status u = 0"
      and "SCAN_BASE \<le> unat (bulk_in_buffer (context u) ! 2)"
      and "unat (bulk_in_buffer (context u) ! 2) < SCAN_BASE + 4"
  shows "input_events (umlaut_kb_ep_irq u submit_ret) =
           [Input_report_key KEY_RIGHTALT 1,
            Input_report_key (unat (keycodes ! (unat (bulk_in_buffer (context u) ! 2) - SCAN_BASE))) 1,
            Input_sync]"
  using assms
  by (simp add: umlaut_kb_ep_irq_def input_events_def Let_def ARRAY_SIZE_keycodes_def
      keycodes_def)

lemma ep_irq_zero:
  assumes "status u = 0" and "bulk_in_buffer (context u) ! 2 = 0"
  shows "input_events (umlaut_kb_ep_irq u submit_ret) =
           [Input_report_key (unat (keycodes ! 0)) 0,
            Input_report_key (unat (keycodes ! 1)) 0,
            Input_report_key (unat (keycodes ! 2)) 0,
            Input_report_key (unat (keycodes ! 3)) 0,
            Input_report_key KEY_RIGHTALT 0,
            Input_sync]"
  using assms
  by (simp add: umlaut_kb_ep_irq_def input_events_def Let_def ARRAY_SIZE_keycodes_def
      keycodes_def SCAN_BASE_def upt_rec)

lemma ep_irq_ignored:
  assumes "status u \<in> {- EOVERFLOW, - ECONNRESET, - ENOENT, - ESHUTDOWN}"
  shows "umlaut_kb_ep_irq u submit_ret =
           [Spin_lock_irqsave,
            Dev_dbg ''urb ignored status: %d'' (status u),
            Spin_unlock_irqrestore]"
  using assms
  by (auto simp add: umlaut_kb_ep_irq_def Let_def EOVERFLOW_def ECONNRESET_def ENOENT_def
      ESHUTDOWN_def)

lemma ep_irq_other:
  assumes "status u \<noteq> 0"
      and "status u \<notin> {- EOVERFLOW, - ECONNRESET, - ENOENT, - ESHUTDOWN}"
  shows "umlaut_kb_ep_irq u submit_ret =
           [Spin_lock_irqsave, Dev_dbg ''urb submit status: %d'' (status u), Usb_submit_urb] @
           (if submit_ret \<noteq> 0
            then [Dev_err ''urb failed with code: %d'' (Some submit_ret)] else []) @
           [Spin_unlock_irqrestore]"
  using assms by (simp add: umlaut_kb_ep_irq_def Let_def)

lemma ep_irq_submit_failure:
  assumes "status u \<notin> {- EOVERFLOW, - ECONNRESET, - ENOENT, - ESHUTDOWN}"
      and "submit_ret \<noteq> 0"
  shows "umlaut_kb_ep_irq u submit_ret =
           butlast (umlaut_kb_ep_irq u 0) @
           [Dev_err ''urb failed with code: %d'' (Some submit_ret), Spin_unlock_irqrestore]"
  using assms by (simp add: umlaut_kb_ep_irq_def Let_def butlast_append)

lemma ep_irq_submit_once:
  assumes "status u \<notin> {- EOVERFLOW, - ECONNRESET, - ENOENT, - ESHUTDOWN}"
  shows "count_list (umlaut_kb_ep_irq u submit_ret) Usb_submit_urb = 1"
  using assms
  by (simp add: umlaut_kb_ep_irq_def Let_def upt_rec ARRAY_SIZE_keycodes_def keycodes_def)

lemma report_urb_simps:
  "status (report_urb st c) = st"
  "bulk_in_buffer (context (report_urb st c)) ! 2 = c"
  "length (bulk_in_buffer (context (report_urb st c))) = EP_BUF_SIZE"
  by (simp_all add: report_urb_def session_def EP_BUF_SIZE_def)

subsection \<open>Decoding the report\<close>

text \<open>
  Claim C1. For every scan code \<open>c\<close> with \<open>SCAN_BASE \<le> c < SCAN_BASE + 4\<close>, the
  completion handler called with status 0 and \<open>c\<close> in byte 2 of the report buffer sends
  to the input device exactly one down event of the modifier \<open>KEY_RIGHTALT\<close>, then
  exactly one down event of the key at offset \<open>c - SCAN_BASE\<close> of \<open>keycodes\<close> (which is
  not the modifier), then exactly one sync, and nothing else.
\<close>

theorem ep_irq_scan_code_down:
  assumes "length (bulk_in_buffer (context u)) = EP_BUF_SIZE"
      and "status u = 0"
      and "bulk_in_buffer (context u) ! 2 = c"
      and "SCAN_BASE \<le> unat c"
      and "unat c < SCAN_BASE + 4"
  shows "input_events (umlaut_kb_ep_irq u submit_ret) =
           [Input_report_key KEY_RIGHTALT 1,
            Input_report_key (unat (keycodes ! (unat c - SCAN_BASE))) 1,
            Input_sync] \<and>
         unat (keycodes ! (unat c - SCAN_BASE)) \<noteq> KEY_RIGHTALT"
proof -
  have "unat c - SCAN_BASE < 4"
    using assms(4,5) by arith
  then have "unat (keycodes ! (unat c - SCAN_BASE)) \<noteq> KEY_RIGHTALT"
    by (rule keycodes_not_rightalt)
  moreover have "input_events (umlaut_kb_ep_irq u submit_ret) =
           [Input_report_key KEY_RIGHTALT 1,
            Input_report_key (unat (keycodes ! (unat c - SCAN_BASE))) 1,
            Input_sync]"
    using ep_irq_in_range [of u submit_ret] assms by simp
  ultimately show ?thesis by simp
qed

text \<open>At scan code \<open>0x21\<close> the events are: modifier down, \<open>KEY_S\<close> down, sync.\<close>

theorem ep_irq_scan_code_down_witness:
  "length (bulk_in_buffer (context (report_urb 0 0x21))) = EP_BUF_SIZE \<and>
   status (report_urb 0 0x21) = 0 \<and>
   bulk_in_buffer (context (report_urb 0 0x21)) ! 2 = 0x21 \<and>
   SCAN_BASE \<le> unat (0x21 :: 8 word) \<and>
   unat (0x21 :: 8 word) < SCAN_BASE + 4 \<and>
   input_events (umlaut_kb_ep_irq (report_urb 0 0x21) 0) =
     [Input_report_key KEY_RIGHTALT 1, Input_report_key KEY_S 1, Input_sync]"
proof -
  have h1: "length (bulk_in_buffer (context (report_urb 0 0x21))) = EP_BUF_SIZE"
    by (rule report_urb_simps)
  have h2: "status (report_urb 0 0x21) = 0"
    by (rule report_urb_simps)
  have h3: "bulk_in_buffer (context (report_urb 0 0x21)) ! 2 = 0x21"
    by (rule report_urb_simps)
  have h4: "SCAN_BASE \<le> unat (0x21 :: 8 word)"
    by (simp add: SCAN_BASE_def)
  have h5: "unat (0x21 :: 8 word) < SCAN_BASE + 4"
    by (simp add: SCAN_BASE_def)
  have k: "unat (keycodes ! (unat (0x21 :: 8 word) - SCAN_BASE)) = KEY_S"
    by (simp add: keycodes_def SCAN_BASE_def KEY_S_def)
  from ep_irq_scan_code_down [OF h1 h2 h3 h4 h5, of 0] h1 h2 h3 h4 h5 k
  show ?thesis by simp
qed

text \<open>
  Claim C2. Decoding scan code 0 sends up events for the four keys of \<open>keycodes\<close>, in
  table order, then an up event for the modifier, then one sync, and nothing else, whatever
  the session holds (the handler keeps no record of keys that are down). A second
  decode of 0, from whatever session state \<open>u'\<close> the first one left, sends the
  same sequence again.
\<close>

theorem ep_irq_release_all:
  assumes "length (bulk_in_buffer (context u)) = EP_BUF_SIZE"
      and "status u = 0"
      and "bulk_in_buffer (context u) ! 2 = 0"
      and "length (bulk_in_buffer (context u')) = EP_BUF_SIZE"
      and "status u' = 0"
      and "bulk_in_buffer (context u') ! 2 = 0"
  shows "input_events (umlaut_kb_ep_irq u submit_ret) =
           [Input_report_key (unat (keycodes ! 0)) 0,
            Input_report_key (unat (keycodes ! 1)) 0,
            Input_report_key (unat (keycodes ! 2)) 0,
            Input_report_key (unat (keycodes ! 3)) 0,
            Input_report_key KEY_RIGHTALT 0,
            Input_sync] \<and>
         length keycodes = 4 \<and>
         input_events (umlaut_kb_ep_irq u' submit_ret') =
           input_events (umlaut_kb_ep_irq u submit_ret)"
proof -
  have "length keycodes = 4"
    by (simp add: keycodes_def)
  moreover note ep_irq_zero [OF assms(2,3), of submit_ret]
  moreover note ep_irq_zero [OF assms(5,6), of submit_ret']
  ultimately show ?thesis by simp
qed

text \<open>
  Two decodes of 0, the second after a failed resubmission: both send Q, P, Y, S and
  the modifier up, then a sync.
\<close>

theorem ep_irq_release_all_witness:
  "length (bulk_in_buffer (context (report_urb 0 0))) = EP_BUF_SIZE \<and>
   status (report_urb 0 0) = 0 \<and>
   bulk_in_buffer (context (report_urb 0 0)) ! 2 = 0 \<and>
   input_events (umlaut_kb_ep_irq (report_urb 0 0) 0) =
     [Input_report_key KEY_Q 0, Input_report_key KEY_P 0, Input_report_key KEY_Y 0,
      Input_report_key KEY_S 0, Input_report_key KEY_RIGHTALT 0, Input_sync] \<and>
   input_events (umlaut_kb_ep_irq (report_urb 0 0) (- 12)) =
     input_events (umlaut_kb_ep_irq (report_urb 0 0) 0)"
proof -
  have h1: "length (bulk_in_buffer (context (report_urb 0 0))) = EP_BUF_SIZE"
    by (rule report_urb_simps)
  have h2: "status (report_urb 0 0) = 0"
    by (rule report_urb_simps)
  have h3: "bulk_in_buffer (context (report_urb 0 0)) ! 2 = 0"
    by (rule report_urb_simps)
  have k: "unat (keycodes ! 0) = KEY_Q" "unat (keycodes ! 1) = KEY_P"
    "unat (keycodes ! 2) = KEY_Y" "unat (keycodes ! 3) = KEY_S"
    by (simp_all add: keycodes_def KEY_Q_def KEY_P_def KEY_Y_def KEY_S_def)
  from ep_irq_release_all [OF h1 h2 h3 h1 h2 h3, of 0 "- 12"] h1 h2 h3 k
  show ?thesis by simp
qed

text \<open>
  Claim C6. Decoding a scan code that is neither 0 nor within
  \<open>[SCAN_BASE, SCAN_BASE + 4)\<close> sends no key event and no sync to the input device,
  and the transfer is resubmitted (exactly once).
\<close>

theorem ep_irq_unknown_scan_code:
  assumes "length (bulk_in_buffer (context u)) = EP_BUF_SIZE"
      and "status u = 0"
      and "bulk_in_buffer (context u) ! 2 = c"
      and "c \<noteq> 0"
      and "\<not> (SCAN_BASE \<le> unat c \<and> unat c < SCAN_BASE + 4)"
  shows "input_events (umlaut_kb_ep_irq u submit_ret) = [] \<and>
         count_list (umlaut_kb_ep_irq u submit_ret) Usb_submit_urb = 1"
  using assms
  by (auto simp add: umlaut_kb_ep_irq_def input_events_def Let_def ARRAY_SIZE_keycodes_def
      keycodes_def unat_eq_0)

text \<open>At scan code \<open>0x05\<close>: no events, one resubmission.\<close>

theorem ep_irq_unknown_scan_code_witness:
  "length (bulk_in_buffer (context (report_urb 0 0x05))) = EP_BUF_SIZE \<and>
   status (report_urb 0 0x05) = 0 \<and>
   bulk_in_buffer (context (report_urb 0 0x05)) ! 2 = 0x05 \<and>
   (0x05 :: 8 word) \<noteq> 0 \<and>
   \<not> (SCAN_BASE \<le> unat (0x05 :: 8 word) \<and> unat (0x05 :: 8 word) < SCAN_BASE + 4) \<and>
   input_events (umlaut_kb_ep_irq (report_urb 0 0x05) 0) = [] \<and>
   count_list (umlaut_kb_ep_irq (report_urb 0 0x05) 0) Usb_submit_urb = 1"
proof -
  have h1: "length (bulk_in_buffer (context (report_urb 0 0x05))) = EP_BUF_SIZE"
    by (rule report_urb_simps)
  have h2: "status (report_urb 0 0x05) = 0"
    by (rule report_urb_simps)
  have h3: "bulk_in_buffer (context (report_urb 0 0x05)) ! 2 = 0x05"
    by (rule report_urb_simps)
  have h4: "(0x05 :: 8 word) \<noteq> 0"
    by simp
  have h5: "\<not> (SCAN_BASE \<le> unat (0x05 :: 8 word) \<and> unat (0x05 :: 8 word) < SCAN_BASE + 4)"
    by (simp add: SCAN_BASE_def)
  from ep_irq_unknown_scan_code [OF h1 h2 h3 h4 h5, of 0] h1 h2 h3 h4 h5
  show ?thesis by simp
qed

text \<open>
  Claim C3, as amended. The handler keeps no modifier state (\<open>struct umlaut_kb_data\<close>
  has no such field): every decode of an in-range scan code sends exactly one
  modifier-down event, whether or not an earlier decode has sent one already. Two
  consecutive in-range decodes therefore send two modifier-down events.
\<close>

theorem ep_irq_modifier_down_every_time:
  assumes "length (bulk_in_buffer (context u)) = EP_BUF_SIZE"
      and "status u = 0"
      and "SCAN_BASE \<le> unat (bulk_in_buffer (context u) ! 2)"
      and "unat (bulk_in_buffer (context u) ! 2) < SCAN_BASE + 4"
      and "length (bulk_in_buffer (context u')) = EP_BUF_SIZE"
      and "status u' = 0"
      and "SCAN_BASE \<le> unat (bulk_in_buffer (context u') ! 2)"
      and "unat (bulk_in_buffer (context u') ! 2) < SCAN_BASE + 4"
  shows "count_list (input_events (umlaut_kb_ep_irq u submit_ret))
           (Input_report_key KEY_RIGHTALT 1) = 1 \<and>
         count_list (input_events (umlaut_kb_ep_irq u' submit_ret'))
           (Input_report_key KEY_RIGHTALT 1) = 1 \<and>
         count_list (input_events (umlaut_kb_ep_irq u submit_ret @
                                   umlaut_kb_ep_irq u' submit_ret'))
           (Input_report_key KEY_RIGHTALT 1) = 2"
proof -
  have once: "count_list (input_events (umlaut_kb_ep_irq v r))
                (Input_report_key KEY_RIGHTALT 1) = 1"
    if st: "status v = 0"
      and lo: "SCAN_BASE \<le> unat (bulk_in_buffer (context v) ! 2)"
      and hi: "unat (bulk_in_buffer (context v) ! 2) < SCAN_BASE + 4"
    for v r
  proof -
    have "unat (bulk_in_buffer (context v) ! 2) - SCAN_BASE < 4"
      using lo hi by arith
    then have "unat (keycodes ! (unat (bulk_in_buffer (context v) ! 2) - SCAN_BASE))
                 \<noteq> KEY_RIGHTALT"
      by (rule keycodes_not_rightalt)
    then show ?thesis
      by (simp add: ep_irq_in_range [OF st lo hi])
  qed
  have split: "input_events (xs @ ys) = input_events xs @ input_events ys" for xs ys
    by (simp add: input_events_def)
  show ?thesis
    using once [OF assms(2,3,4), of submit_ret] once [OF assms(6,7,8), of submit_ret']
    by (simp add: split)
qed

text \<open>Scan code \<open>0x1E\<close> followed by scan code \<open>0x1F\<close>.\<close>

theorem ep_irq_modifier_down_every_time_witness:
  "length (bulk_in_buffer (context (report_urb 0 0x1E))) = EP_BUF_SIZE \<and>
   status (report_urb 0 0x1E) = 0 \<and>
   SCAN_BASE \<le> unat (bulk_in_buffer (context (report_urb 0 0x1E)) ! 2) \<and>
   unat (bulk_in_buffer (context (report_urb 0 0x1E)) ! 2) < SCAN_BASE + 4 \<and>
   length (bulk_in_buffer (context (report_urb 0 0x1F))) = EP_BUF_SIZE \<and>
   status (report_urb 0 0x1F) = 0 \<and>
   SCAN_BASE \<le> unat (bulk_in_buffer (context (report_urb 0 0x1F)) ! 2) \<and>
   unat (bulk_in_buffer (context (report_urb 0 0x1F)) ! 2) < SCAN_BASE + 4 \<and>
   count_list (input_events (umlaut_kb_ep_irq (report_urb 0 0x1E) 0 @
                             umlaut_kb_ep_irq (report_urb 0 0x1F) 0))
     (Input_report_key KEY_RIGHTALT 1) = 2"
proof -
  have a1: "length (bulk_in_buffer (context (report_urb 0 0x1E))) = EP_BUF_SIZE"
    by (rule report_urb_simps)
  have a2: "status (report_urb 0 0x1E) = 0"
    by (rule report_urb_simps)
  have a3: "SCAN_BASE \<le> unat (bulk_in_buffer (context (report_urb 0 0x1E)) ! 2)"
    by (simp add: report_urb_simps SCAN_BASE_def)
  have a4: "unat (bulk_in_buffer (context (report_urb 0 0x1E)) ! 2) < SCAN_BASE + 4"
    by (simp add: report_urb_simps SCAN_BASE_def)
  have b1: "length (bulk_in_buffer (context (report_urb 0 0x1F))) = EP_BUF_SIZE"
    by (rule report_urb_simps)
  have b2: "status (report_urb 0 0x1F) = 0"
    by (rule report_urb_simps)
  have b3: "SCAN_BASE \<le> unat (bulk_in_buffer (context (report_urb 0 0x1F)) ! 2)"
    by (simp add: report_urb_simps SCAN_BASE_def)
  have b4: "unat (bulk_in_buffer (context (report_urb 0 0x1F)) ! 2) < SCAN_BASE + 4"
    by (simp add: report_urb_simps SCAN_BASE_def)
  from ep_irq_modifier_down_every_time [OF a1 a2 a3 a4 b1 b2 b3 b4, of 0 0]
    a1 a2 a3 a4 b1 b2 b3 b4
  show ?thesis by simp
qed

text \<open>
  Claim C3, as stated, fails: after scan code \<open>0x1E\<close> has been decoded, decoding scan
  code \<open>0x1F\<close> sends a second modifier-down event.
\<close>

theorem ep_irq_second_modifier_down_counterexample:
  "input_events (umlaut_kb_ep_irq (report_urb 0 0x1E) 0 @
                 umlaut_kb_ep_irq (report_urb 0 0x1F) 0) =
     [Input_report_key KEY_RIGHTALT 1, Input_report_key KEY_Q 1, Input_sync,
      Input_report_key KEY_RIGHTALT 1, Input_report_key KEY_P 1, Input_sync]"
  by (simp add: umlaut_kb_ep_irq_def input_events_def Let_def ARRAY_SIZE_keycodes_def
      keycodes_def report_urb_def session_def SCAN_BASE_def KEY_Q_def KEY_P_def)

subsection \<open>Completion status\<close>

text \<open>
  Claim C5. With one of the statuses \<open>-EOVERFLOW\<close>, \<open>-ECONNRESET\<close>, \<open>-ENOENT\<close>,
  \<open>-ESHUTDOWN\<close> the handler logs and returns at once: nothing is sent to the input
  device and the transfer is not resubmitted. With any other nonzero status nothing is
  decoded, and the transfer is resubmitted once. When the resubmission fails, on any
  path that reaches it, the only effect is one error line in the log: the trace is
  that of a successful resubmission with the log line added, \<open>usb_submit_urb\<close> is
  called once and not again, and the handler has no return value.
\<close>

theorem ep_irq_status_handling:
  "(status u \<in> {- EOVERFLOW, - ECONNRESET, - ENOENT, - ESHUTDOWN} \<longrightarrow>
      umlaut_kb_ep_irq u submit_ret =
        [Spin_lock_irqsave,
         Dev_dbg ''urb ignored status: %d'' (status u),
         Spin_unlock_irqrestore] \<and>
      input_events (umlaut_kb_ep_irq u submit_ret) = [] \<and>
      count_list (umlaut_kb_ep_irq u submit_ret) Usb_submit_urb = 0) \<and>
   (status u \<noteq> 0 \<and> status u \<notin> {- EOVERFLOW, - ECONNRESET, - ENOENT, - ESHUTDOWN} \<longrightarrow>
      input_events (umlaut_kb_ep_irq u submit_ret) = [] \<and>
      count_list (umlaut_kb_ep_irq u submit_ret) Usb_submit_urb = 1) \<and>
   (status u \<notin> {- EOVERFLOW, - ECONNRESET, - ENOENT, - ESHUTDOWN} \<and> submit_ret \<noteq> 0 \<longrightarrow>
      umlaut_kb_ep_irq u submit_ret =
        butlast (umlaut_kb_ep_irq u 0) @
        [Dev_err ''urb failed with code: %d'' (Some submit_ret), Spin_unlock_irqrestore] \<and>
      last (butlast (umlaut_kb_ep_irq u 0)) = Usb_submit_urb \<and>
      count_list (umlaut_kb_ep_irq u submit_ret) Usb_submit_urb = 1)"
proof (intro conjI impI)
  assume ign: "status u \<in> {- EOVERFLOW, - ECONNRESET, - ENOENT, - ESHUTDOWN}"
  show "umlaut_kb_ep_irq u submit_ret =
          [Spin_lock_irqsave,
           Dev_dbg ''urb ignored status: %d'' (status u),
           Spin_unlock_irqrestore]"
    by (rule ep_irq_ignored [OF ign])
  show "input_events (umlaut_kb_ep_irq u submit_ret) = []"
    by (simp add: ep_irq_ignored [OF ign] input_events_def)
  show "count_list (umlaut_kb_ep_irq u submit_ret) Usb_submit_urb = 0"
    by (simp add: ep_irq_ignored [OF ign])
next
  assume oth: "status u \<noteq> 0 \<and>
               status u \<notin> {- EOVERFLOW, - ECONNRESET, - ENOENT, - ESHUTDOWN}"
  then have nz: "status u \<noteq> 0"
    and ni: "status u \<notin> {- EOVERFLOW, - ECONNRESET, - ENOENT, - ESHUTDOWN}"
    by simp_all
  show "input_events (umlaut_kb_ep_irq u submit_ret) = []"
    by (simp add: ep_irq_other [OF nz ni] input_events_def)
  show "count_list (umlaut_kb_ep_irq u submit_ret) Usb_submit_urb = 1"
    by (rule ep_irq_submit_once [OF ni])
next
  assume fl: "status u \<notin> {- EOVERFLOW, - ECONNRESET, - ENOENT, - ESHUTDOWN} \<and>
              submit_ret \<noteq> 0"
  then have ni: "status u \<notin> {- EOVERFLOW, - ECONNRESET, - ENOENT, - ESHUTDOWN}"
    and sr: "submit_ret \<noteq> 0"
    by simp_all
  show "umlaut_kb_ep_irq u submit_ret =
          butlast (umlaut_kb_ep_irq u 0) @
          [Dev_err ''urb failed with code: %d'' (Some submit_ret), Spin_unlock_irqrestore]"
    by (rule ep_irq_submit_failure [OF ni sr])
  show "last (butlast (umlaut_kb_ep_irq u 0)) = Usb_submit_urb"
    using ni by (simp add: umlaut_kb_ep_irq_def Let_def butlast_append)
  show "count_list (umlaut_kb_ep_irq u submit_ret) Usb_submit_urb = 1"
    by (rule ep_irq_submit_once [OF ni])
qed

text \<open>
  Status \<open>-ENOENT\<close> (the urb was killed): three calls, none of them a submission.
  Status \<open>-71\<close> (\<open>-EPROTO\<close>) with a resubmission that fails with \<open>-ENOMEM\<close>: the
  report, although it holds scan code \<open>0x1E\<close>, is not decoded.
\<close>

theorem ep_irq_status_handling_witness:
  "status (report_urb (- ENOENT) 0x1E) \<in> {- EOVERFLOW, - ECONNRESET, - ENOENT, - ESHUTDOWN} \<and>
   umlaut_kb_ep_irq (report_urb (- ENOENT) 0x1E) 0 =
     [Spin_lock_irqsave, Dev_dbg ''urb ignored status: %d'' (- 2), Spin_unlock_irqrestore] \<and>
   status (report_urb (- 71) 0x1E) \<noteq> 0 \<and>
   status (report_urb (- 71) 0x1E) \<notin> {- EOVERFLOW, - ECONNRESET, - ENOENT, - ESHUTDOWN} \<and>
   - ENOMEM \<noteq> 0 \<and>
   umlaut_kb_ep_irq (report_urb (- 71) 0x1E) (- ENOMEM) =
     [Spin_lock_irqsave, Dev_dbg ''urb submit status: %d'' (- 71), Usb_submit_urb,
      Dev_err ''urb failed with code: %d'' (Some (- 12)), Spin_unlock_irqrestore]"
proof -
  have h1: "status (report_urb (- ENOENT) 0x1E) \<in>
              {- EOVERFLOW, - ECONNRESET, - ENOENT, - ESHUTDOWN}"
    by (simp add: report_urb_simps)
  have h2: "status (report_urb (- 71) 0x1E) \<noteq> 0"
    by (simp add: report_urb_simps)
  have h3: "status (report_urb (- 71) 0x1E) \<notin>
              {- EOVERFLOW, - ECONNRESET, - ENOENT, - ESHUTDOWN}"
    by (simp add: report_urb_simps EOVERFLOW_def ECONNRESET_def ENOENT_def ESHUTDOWN_def)
  have h4: "- ENOMEM \<noteq> 0"
    by (simp add: ENOMEM_def)
  have ok: "butlast (umlaut_kb_ep_irq (report_urb (- 71) 0x1E) 0) =
              [Spin_lock_irqsave, Dev_dbg ''urb submit status: %d'' (- 71), Usb_submit_urb]"
    using ep_irq_other [OF h2 h3, of 0] by (simp add: report_urb_simps)
  from ep_irq_status_handling [of "report_urb (- ENOENT) 0x1E" 0]
    ep_irq_status_handling [of "report_urb (- 71) 0x1E" "- ENOMEM"]
    h1 h2 h3 h4 ok
  show ?thesis by (simp add: report_urb_simps ENOENT_def ENOMEM_def)
qed

subsection \<open>Open and close\<close>

lemma open_cases:
  "umlaut_kb_open None a b = (- ENODEV, None, [])"
  "a \<noteq> 0 \<Longrightarrow> umlaut_kb_open (Some dev) a b =
     (a, Some dev,
      [Usb_autopm_get_interface, Dev_err ''Could not get interface, error %d'' (Some a)])"
  "b \<noteq> 0 \<Longrightarrow> umlaut_kb_open (Some dev) 0 b =
     (b, Some dev,
      [Usb_autopm_get_interface, Usb_submit_urb,
       Dev_err ''Could not submit urb, error %d'' (Some b)])"
  "umlaut_kb_open (Some dev) 0 0 =
     (0, Some (dev\<lparr>kref := kref dev + 1\<rparr>), [Usb_autopm_get_interface, Usb_submit_urb])"
  by (simp_all add: umlaut_kb_open_def kref_get_def)

text \<open>
  Claim C4, at the input where the code departs from it: a session whose power request
  succeeds and whose first submission fails with \<open>-ENOMEM\<close>. The error is returned
  and the reference count is untouched, but \<open>usb_autopm_put_interface\<close> is not called:
  the power reference taken two calls earlier stays held.
\<close>

theorem open_submit_failure_keeps_power_reference:
  "umlaut_kb_open (Some (session 1 0)) 0 (- ENOMEM) =
     (- ENOMEM, Some (session 1 0),
      [Usb_autopm_get_interface, Usb_submit_urb,
       Dev_err ''Could not submit urb, error %d'' (Some (- ENOMEM))]) \<and>
   Usb_autopm_get_interface \<in> set (snd (snd (umlaut_kb_open (Some (session 1 0)) 0 (- ENOMEM)))) \<and>
   Usb_autopm_put_interface \<notin> set (snd (snd (umlaut_kb_open (Some (session 1 0)) 0 (- ENOMEM))))"
  by (simp add: umlaut_kb_open_def ENOMEM_def)

text \<open>
  Claim C10. \<open>umlaut_kb_open\<close> fails exactly when there is no session data, the power
  request is denied or the submission fails, and then the session, with its reference
  count, is as it was before the call. The count is incremented, by one, only when
  the call returns 0.
\<close>

theorem open_failure_keeps_refcount:
  "(fst (umlaut_kb_open drvdata autopm_ret submit_ret) \<noteq> 0) =
     (drvdata = None \<or> autopm_ret \<noteq> 0 \<or> submit_ret \<noteq> 0) \<and>
   (fst (umlaut_kb_open drvdata autopm_ret submit_ret) \<noteq> 0 \<longrightarrow>
      fst (snd (umlaut_kb_open drvdata autopm_ret submit_ret)) = drvdata) \<and>
   (fst (umlaut_kb_open drvdata autopm_ret submit_ret) = 0 \<longrightarrow>
      (\<exists>dev. drvdata = Some dev \<and>
             fst (snd (umlaut_kb_open drvdata autopm_ret submit_ret)) =
               Some (dev\<lparr>kref := kref dev + 1\<rparr>)))"
  by (cases drvdata) (simp_all add: umlaut_kb_open_def kref_get_def ENODEV_def)

text \<open>
  The three failures (no session data, power denied with \<open>-EIO\<close>, submission failed with
  \<open>-ENOMEM\<close>) leave a count of 1 at 1; the success makes it 2.
\<close>

theorem open_failure_keeps_refcount_witness:
  "fst (umlaut_kb_open None 0 0) \<noteq> 0 \<and>
   fst (snd (umlaut_kb_open None 0 0)) = None \<and>
   fst (umlaut_kb_open (Some (session 1 0)) (- 5) 0) \<noteq> 0 \<and>
   fst (snd (umlaut_kb_open (Some (session 1 0)) (- 5) 0)) = Some (session 1 0) \<and>
   fst (umlaut_kb_open (Some (session 1 0)) 0 (- 12)) \<noteq> 0 \<and>
   fst (snd (umlaut_kb_open (Some (session 1 0)) 0 (- 12))) = Some (session 1 0) \<and>
   fst (umlaut_kb_open (Some (session 1 0)) 0 0) = 0 \<and>
   map_option kref (fst (snd (umlaut_kb_open (Some (session 1 0)) 0 0))) = Some 2"
proof -
  have f1: "fst (umlaut_kb_open None 0 0) \<noteq> 0"
    by (simp add: open_cases ENODEV_def)
  have f2: "fst (umlaut_kb_open (Some (session 1 0)) (- 5) 0) \<noteq> 0"
    by (simp add: open_cases)
  have f3: "fst (umlaut_kb_open (Some (session 1 0)) 0 (- 12)) \<noteq> 0"
    by (simp add: open_cases)
  have f4: "fst (umlaut_kb_open (Some (session 1 0)) 0 0) = 0"
    by (simp add: open_cases)
  have k: "kref (session 1 0) = 1"
    by (simp add: session_def)
  from open_failure_keeps_refcount [of None 0 0]
    open_failure_keeps_refcount [of "Some (session 1 0)" "- 5" 0]
    open_failure_keeps_refcount [of "Some (session 1 0)" 0 "- 12"]
    open_failure_keeps_refcount [of "Some (session 1 0)" 0 0]
    f1 f2 f3 f4 k
  show ?thesis by auto
qed

lemma close_cases:
  "kref dev - 1 = 0 \<Longrightarrow> umlaut_kb_close (Some dev) =
     (None,
      [Usb_kill_urb, Usb_autopm_put_interface, Usb_free_urb (bulk_in_urb dev), Usb_put_dev] @
      (if input dev \<noteq> None then [Input_unregister_device] else []) @ [Kfree])"
  "kref dev - 1 \<noteq> 0 \<Longrightarrow> umlaut_kb_close (Some dev) =
     (Some (dev\<lparr>kref := kref dev - 1\<rparr>), [Usb_kill_urb, Usb_autopm_put_interface])"
  by (simp_all add: umlaut_kb_close_def kref_put_def umlaut_kb_delete_def Let_def)

text \<open>
  One call of \<open>umlaut_kb_close\<close> on a session kills the outstanding transfer, then
  releases the power reference, then decrements the reference count, and runs
  \<open>umlaut_kb_delete\<close> if and only if the decremented count is zero.
\<close>

lemma close_releases_at_zero:
  "take 2 (snd (umlaut_kb_close (Some dev))) = [Usb_kill_urb, Usb_autopm_put_interface] \<and>
   count_list (snd (umlaut_kb_close (Some dev))) Usb_kill_urb = 1 \<and>
   count_list (snd (umlaut_kb_close (Some dev))) Usb_autopm_put_interface = 1 \<and>
   (Usb_free_urb (bulk_in_urb dev) \<in> set (snd (umlaut_kb_close (Some dev)))) =
     (kref dev - 1 = 0) \<and>
   (Usb_put_dev \<in> set (snd (umlaut_kb_close (Some dev)))) = (kref dev - 1 = 0) \<and>
   (Kfree \<in> set (snd (umlaut_kb_close (Some dev)))) = (kref dev - 1 = 0) \<and>
   (fst (umlaut_kb_close (Some dev)) = None) = (kref dev - 1 = 0) \<and>
   (kref dev - 1 \<noteq> 0 \<longrightarrow>
      umlaut_kb_close (Some dev) =
        (Some (dev\<lparr>kref := kref dev - 1\<rparr>), [Usb_kill_urb, Usb_autopm_put_interface])) \<and>
   (kref dev - 1 = 0 \<longrightarrow>
      count_list (snd (umlaut_kb_close (Some dev))) (Usb_free_urb (bulk_in_urb dev)) = 1 \<and>
      count_list (snd (umlaut_kb_close (Some dev))) Usb_put_dev = 1 \<and>
      count_list (snd (umlaut_kb_close (Some dev))) Kfree = 1)"
proof (cases "kref dev - 1 = 0")
  case True
  show ?thesis
    using True by (simp add: close_cases(1) [OF True])
next
  case False
  show ?thesis
    using False by (simp add: close_cases(2) [OF False])
qed

subsection \<open>Suspend and resume\<close>

text \<open>
  Claim C7. Without session data on the interface both \<open>umlaut_kb_suspend\<close> and
  \<open>umlaut_kb_resume\<close> return \<open>-ENODEV\<close> and call nothing. With a session whose input
  device has no open consumer both return 0 and call nothing. With an open consumer,
  suspend kills the outstanding transfer and returns 0, and resume submits one
  transfer and returns what the submission returned; when that is an error, it is
  the return value and nothing else happens: no part of the session is released.
\<close>

theorem suspend_resume_behaviour:
  "umlaut_kb_suspend None = Inr (- ENODEV, []) \<and>
   umlaut_kb_resume None submit_ret = Inr (- ENODEV, []) \<and>
   (input dev = Some idev \<and> users idev = 0 \<longrightarrow>
      umlaut_kb_suspend (Some dev) = Inr (0, []) \<and>
      umlaut_kb_resume (Some dev) submit_ret = Inr (0, [])) \<and>
   (input dev = Some idev \<and> users idev \<noteq> 0 \<longrightarrow>
      umlaut_kb_suspend (Some dev) = Inr (0, [Usb_kill_urb]) \<and>
      umlaut_kb_resume (Some dev) submit_ret = Inr (submit_ret, [Usb_submit_urb]))"
  by (simp add: umlaut_kb_suspend_def umlaut_kb_resume_def)

text \<open>
  A session without a consumer, and one with a consumer whose resubmission fails with
  \<open>-ENOMEM\<close>.
\<close>

theorem suspend_resume_behaviour_witness:
  "input (session 1 0) = Some \<lparr>users = 0, evbit = {EV_KEY},
                               keybit = {KEY_Q, KEY_P, KEY_Y, KEY_S, KEY_RIGHTALT}\<rparr> \<and>
   umlaut_kb_suspend (Some (session 1 0)) = Inr (0, []) \<and>
   umlaut_kb_resume (Some (session 1 0)) (- 12) = Inr (0, []) \<and>
   input (session 2 1) = Some \<lparr>users = 1, evbit = {EV_KEY},
                               keybit = {KEY_Q, KEY_P, KEY_Y, KEY_S, KEY_RIGHTALT}\<rparr> \<and>
   umlaut_kb_suspend (Some (session 2 1)) = Inr (0, [Usb_kill_urb]) \<and>
   umlaut_kb_resume (Some (session 2 1)) (- 12) = Inr (- 12, [Usb_submit_urb])"
proof -
  have h1: "input (session 1 0) = Some \<lparr>users = 0, evbit = {EV_KEY},
              keybit = {KEY_Q, KEY_P, KEY_Y, KEY_S, KEY_RIGHTALT}\<rparr>"
    by (simp add: session_def)
  have h2: "input (session 2 1) = Some \<lparr>users = 1, evbit = {EV_KEY},
              keybit = {KEY_Q, KEY_P, KEY_Y, KEY_S, KEY_RIGHTALT}\<rparr>"
    by (simp add: session_def)
  from suspend_resume_behaviour [of "- 12" "session 1 0"
      "\<lparr>users = 0, evbit = {EV_KEY}, keybit = {KEY_Q, KEY_P, KEY_Y, KEY_S, KEY_RIGHTALT}\<rparr>"]
    suspend_resume_behaviour [of "- 12" "session 2 1"
      "\<lparr>users = 1, evbit = {EV_KEY}, keybit = {KEY_Q, KEY_P, KEY_Y, KEY_S, KEY_RIGHTALT}\<rparr>"]
    h1 h2
  show ?thesis by simp
qed

subsection \<open>Probe\<close>

lemma probe_registration_failed:
  assumes "register_ret \<noteq> 0"
  shows "umlaut_kb_probe True (Some h) (Some idev) register_ret =
           (register_ret, None,
            [Kzalloc, Spin_lock_init, Mutex_init, Usb_get_dev, Usb_alloc_urb,
             Usb_fill_int_urb, Input_allocate_device,
             Input_set_drvdata, Usb_make_path, Strlcat, Usb_set_intfdata,
             Input_register_device,
             Dev_err ''Could not register the input device.'' None,
             Input_free_device
               (Some (idev\<lparr>evbit := insert EV_KEY (evbit idev),
                            keybit := set (map unat keycodes) \<union>
                                      insert KEY_RIGHTALT (keybit idev)\<rparr>)),
             Usb_free_urb (Some h), Usb_put_dev, Kfree])"
  using assms
  by (simp add: umlaut_kb_probe_def probe_error_def kref_put_def umlaut_kb_delete_def Let_def)

lemma probe_registered:
  "umlaut_kb_probe True (Some h) (Some idev) 0 =
     (0,
      Some \<lparr>input = Some (idev\<lparr>evbit := insert EV_KEY (evbit idev),
                               keybit := set (map unat keycodes) \<union>
                                         insert KEY_RIGHTALT (keybit idev)\<rparr>),
            bulk_in_urb = Some h,
            bulk_in_buffer = replicate EP_BUF_SIZE 0,
            kref = 1\<rparr>,
      [Kzalloc, Spin_lock_init, Mutex_init, Usb_get_dev, Usb_alloc_urb,
       Usb_fill_int_urb, Input_allocate_device,
       Input_set_drvdata, Usb_make_path, Strlcat, Usb_set_intfdata,
       Input_register_device,
       Dev_info ''Device attached.''])"
  by (simp add: umlaut_kb_probe_def Let_def)

text \<open>
  Claim C9. When \<open>input_register_device\<close> fails in probe (all allocations having
  succeeded), probe returns the registration error, no session is left, no transfer
  has been submitted, and every resource taken has been given back once: the input
  device is freed (not unregistered), the urb is freed, the device reference is put
  and the session storage is freed. When registration succeeds, probe returns 0 and
  leaves a session with reference count 1 and its input device, and still no
  transfer has been submitted.
\<close>

theorem probe_registration:
  "(register_ret \<noteq> 0 \<longrightarrow>
      fst (umlaut_kb_probe True (Some h) (Some idev) register_ret) = register_ret \<and>
      fst (snd (umlaut_kb_probe True (Some h) (Some idev) register_ret)) = None \<and>
      Usb_submit_urb \<notin> set (snd (snd (umlaut_kb_probe True (Some h) (Some idev) register_ret))) \<and>
      Input_unregister_device \<notin>
        set (snd (snd (umlaut_kb_probe True (Some h) (Some idev) register_ret))) \<and>
      length (filter (\<lambda>c. case c of Input_free_device p \<Rightarrow> p \<noteq> None | _ \<Rightarrow> False)
        (snd (snd (umlaut_kb_probe True (Some h) (Some idev) register_ret)))) = 1 \<and>
      count_list (snd (snd (umlaut_kb_probe True (Some h) (Some idev) register_ret)))
        (Usb_free_urb (Some h)) = 1 \<and>
      count_list (snd (snd (umlaut_kb_probe True (Some h) (Some idev) register_ret)))
        Usb_put_dev = 1 \<and>
      count_list (snd (snd (umlaut_kb_probe True (Some h) (Some idev) register_ret)))
        Kfree = 1) \<and>
   (register_ret = 0 \<longrightarrow>
      fst (umlaut_kb_probe True (Some h) (Some idev) register_ret) = 0 \<and>
      (\<exists>dev. fst (snd (umlaut_kb_probe True (Some h) (Some idev) register_ret)) = Some dev \<and>
             kref dev = 1 \<and> input dev \<noteq> None \<and> bulk_in_urb dev = Some h) \<and>
      Usb_submit_urb \<notin> set (snd (snd (umlaut_kb_probe True (Some h) (Some idev) register_ret))) \<and>
      Kfree \<notin> set (snd (snd (umlaut_kb_probe True (Some h) (Some idev) register_ret))))"
proof (intro conjI impI)
  assume f: "register_ret \<noteq> 0"
  note r = probe_registration_failed [OF f, of h idev]
  show "fst (umlaut_kb_probe True (Some h) (Some idev) register_ret) = register_ret"
    by (simp add: r)
  show "fst (snd (umlaut_kb_probe True (Some h) (Some idev) register_ret)) = None"
    by (simp add: r)
  show "Usb_submit_urb \<notin>
          set (snd (snd (umlaut_kb_probe True (Some h) (Some idev) register_ret)))"
    by (simp add: r)
  show "Input_unregister_device \<notin>
          set (snd (snd (umlaut_kb_probe True (Some h) (Some idev) register_ret)))"
    by (simp add: r)
  show "length (filter (\<lambda>c. case c of Input_free_device p \<Rightarrow> p \<noteq> None | _ \<Rightarrow> False)
          (snd (snd (umlaut_kb_probe True (Some h) (Some idev) register_ret)))) = 1"
    by (simp add: r)
  show "count_list (snd (snd (umlaut_kb_probe True (Some h) (Some idev) register_ret)))
          (Usb_free_urb (Some h)) = 1"
    by (simp add: r)
  show "count_list (snd (snd (umlaut_kb_probe True (Some h) (Some idev) register_ret)))
          Usb_put_dev = 1"
    by (simp add: r)
  show "count_list (snd (snd (umlaut_kb_probe True (Some h) (Some idev) register_ret)))
          Kfree = 1"
    by (simp add: r)
next
  assume z: "register_ret = 0"
  note r = probe_registered [of h idev]
  show "fst (umlaut_kb_probe True (Some h) (Some idev) register_ret) = 0"
    by (simp add: z r)
  show "\<exists>dev. fst (snd (umlaut_kb_probe True (Some h) (Some idev) register_ret)) = Some dev \<and>
              kref dev = 1 \<and> input dev \<noteq> None \<and> bulk_in_urb dev = Some h"
    by (simp add: z r)
  show "Usb_submit_urb \<notin>
          set (snd (snd (umlaut_kb_probe True (Some h) (Some idev) register_ret)))"
    by (simp add: z r)
  show "Kfree \<notin> set (snd (snd (umlaut_kb_probe True (Some h) (Some idev) register_ret)))"
    by (simp add: z r)
qed

text \<open>
  Probe with a fresh input device and urb 0: registration failing with \<open>-EEXIST\<close>
  (\<open>-17\<close>) leaves no session; registration succeeding leaves the session
  \<open>session 1 0\<close>.
\<close>

theorem probe_registration_witness:
  "(- 17 :: int) \<noteq> 0 \<and>
   fst (umlaut_kb_probe True (Some 0) (Some \<lparr>users = 0, evbit = {}, keybit = {}\<rparr>) (- 17)) = - 17 \<and>
   fst (snd (umlaut_kb_probe True (Some 0) (Some \<lparr>users = 0, evbit = {}, keybit = {}\<rparr>) (- 17)))
     = None \<and>
   count_list
     (snd (snd (umlaut_kb_probe True (Some 0) (Some \<lparr>users = 0, evbit = {}, keybit = {}\<rparr>) (- 17))))
     Kfree = 1 \<and>
   umlaut_kb_probe True (Some 0) (Some \<lparr>users = 0, evbit = {}, keybit = {}\<rparr>) 0 =
     (0, Some (session 1 0),
      [Kzalloc, Spin_lock_init, Mutex_init, Usb_get_dev, Usb_alloc_urb,
       Usb_fill_int_urb, Input_allocate_device,
       Input_set_drvdata, Usb_make_path, Strlcat, Usb_set_intfdata,
       Input_register_device,
       Dev_info ''Device attached.''])"
proof -
  have h: "(- 17 :: int) \<noteq> 0"
    by simp
  have s: "umlaut_kb_probe True (Some 0) (Some \<lparr>users = 0, evbit = {}, keybit = {}\<rparr>) 0 =
     (0, Some (session 1 0),
      [Kzalloc, Spin_lock_init, Mutex_init, Usb_get_dev, Usb_alloc_urb,
       Usb_fill_int_urb, Input_allocate_device,
       Input_set_drvdata, Usb_make_path, Strlcat, Usb_set_intfdata,
       Input_register_device,
       Dev_info ''Device attached.''])"
    by (auto simp add: probe_registered session_def keycodes_values)
  from probe_registration [of "- 17" 0 "\<lparr>users = 0, evbit = {}, keybit = {}\<rparr>"]
    probe_registration [of 0 0 "\<lparr>users = 0, evbit = {}, keybit = {}\<rparr>"]
    h s
  show ?thesis by simp
qed

subsection \<open>Disconnect and the reference count\<close>

text \<open>
  An open that succeeds followed by a close gives back the session as it was, for
  every session whose count is not zero: the pair never brings the count of an
  attached session (1 after probe) to zero, so close never runs \<open>umlaut_kb_delete\<close>
  on it.
\<close>

lemma open_close_round:
  assumes "kref dev \<noteq> 0"
  shows "fst (snd (umlaut_kb_open (Some dev) 0 0)) = Some (dev\<lparr>kref := kref dev + 1\<rparr>) \<and>
         umlaut_kb_close (fst (snd (umlaut_kb_open (Some dev) 0 0))) =
           (Some dev, [Usb_kill_urb, Usb_autopm_put_interface])"
  using assms
  by (simp add: umlaut_kb_open_def kref_get_def umlaut_kb_close_def kref_put_def Let_def)

lemma disconnect_trace:
  "umlaut_kb_disconnect (Some dev) =
     Inr (Some dev,
          [Mutex_lock, Usb_set_intfdata_NULL, Input_unregister_device,
           Usb_free_urb (bulk_in_urb dev), Mutex_unlock,
           Dev_info ''Device disconnected.''])"
  by (simp add: umlaut_kb_disconnect_def)

text \<open>
  Claim C8, on a run where the code departs from it. Probe succeeds and leaves a
  session with reference count 1; a consumer opens it (count 2) and closes it (count
  1, nothing released); then the device is disconnected. \<open>umlaut_kb_disconnect\<close>
  frees the transfer handle while the count is 1, does not decrement the count, and
  releases neither the device reference nor the session storage: the count never
  reaches zero, and the session is left holding a freed handle. Disconnecting while
  the consumer is still open does the same at count 2.
\<close>

theorem disconnect_frees_urb_while_held:
  "fst (snd (umlaut_kb_probe True (Some 0) (Some \<lparr>users = 0, evbit = {}, keybit = {}\<rparr>) 0)) =
     Some (session 1 0) \<and>
   umlaut_kb_open (Some (session 1 0)) 0 0 =
     (0, Some (session 2 0), [Usb_autopm_get_interface, Usb_submit_urb]) \<and>
   umlaut_kb_close (Some (session 2 0)) =
     (Some (session 1 0), [Usb_kill_urb, Usb_autopm_put_interface]) \<and>
   kref (session 1 0) = 1 \<and>
   bulk_in_urb (session 1 0) = Some 0 \<and>
   umlaut_kb_disconnect (Some (session 1 0)) =
     Inr (Some (session 1 0),
          [Mutex_lock, Usb_set_intfdata_NULL, Input_unregister_device,
           Usb_free_urb (Some 0), Mutex_unlock,
           Dev_info ''Device disconnected.'']) \<and>
   kref (session 2 0) = 2 \<and>
   umlaut_kb_disconnect (Some (session 2 0)) =
     Inr (Some (session 2 0),
          [Mutex_lock, Usb_set_intfdata_NULL, Input_unregister_device,
           Usb_free_urb (Some 0), Mutex_unlock,
           Dev_info ''Device disconnected.''])"
proof -
  have p: "fst (snd (umlaut_kb_probe True (Some 0)
                 (Some \<lparr>users = 0, evbit = {}, keybit = {}\<rparr>) 0)) = Some (session 1 0)"
    by (auto simp add: probe_registered session_def keycodes_values)
  have e: "(session 1 0)\<lparr>kref := kref (session 1 0) + 1\<rparr> = session 2 0"
    by (simp add: session_def)
  have nz: "kref (session 1 0) \<noteq> 0"
    by (simp add: session_def)
  have o: "umlaut_kb_open (Some (session 1 0)) 0 0 =
             (0, Some (session 2 0), [Usb_autopm_get_interface, Usb_submit_urb])"
    by (simp add: open_cases e)
  have c: "umlaut_kb_close (Some (session 2 0)) =
             (Some (session 1 0), [Usb_kill_urb, Usb_autopm_put_interface])"
    using open_close_round [OF nz] by (simp add: o e)
  have d1: "umlaut_kb_disconnect (Some (session 1 0)) =
     Inr (Some (session 1 0),
          [Mutex_lock, Usb_set_intfdata_NULL, Input_unregister_device,
           Usb_free_urb (Some 0), Mutex_unlock,
           Dev_info ''Device disconnected.''])"
    by (simp add: disconnect_trace session_def)
  have d2: "umlaut_kb_disconnect (Some (session 2 0)) =
     Inr (Some (session 2 0),
          [Mutex_lock, Usb_set_intfdata_NULL, Input_unregister_device,
           Usb_free_urb (Some 0), Mutex_unlock,
           Dev_info ''Device disconnected.''])"
    by (simp add: disconnect_trace session_def)
  have k: "kref (session 1 0) = 1" "kref (session 2 0) = 2" "bulk_in_urb (session 1 0) = Some 0"
    by (simp_all add: session_def)
  from p o c d1 d2 k show ?thesis by simp
qed

end
